theory Spec2Isabelle
  imports Complex_Main "HOL-Library.Monad_Syntax"
begin

section \<open>Strings, regular-expression classes and whitespace trimming\<close>

text \<open>
  Python strings are sequences of code points; here a string is a list of \<^typ>\<open>char\<close>,
  one \<^typ>\<open>char\<close> per code point below 256, and \<open>length\<close> is Python's \<open>len\<close>.
  The class \<open>\s\<close> of \<open>re\<close> on \<open>str\<close> patterns and the characters removed by
  \<open>str.strip()\<close> are the same below 256: tab to carriage return, the four separators
  28 to 31, the space, NEL (133) and the no-break space (160).
\<close>

definition is_space :: "char \<Rightarrow> bool" where
  "is_space c =
     (let n = (of_char c :: nat)
      in (9 \<le> n \<and> n \<le> 13) \<or> (28 \<le> n \<and> n \<le> 32) \<or> n = 133 \<or> n = 160)"

definition is_letter :: "char \<Rightarrow> bool" where
  \<comment> \<open>the class \<open>[a-zA-Z]\<close>\<close>
  "is_letter c =
     (let n = (of_char c :: nat)
      in (97 \<le> n \<and> n \<le> 122) \<or> (65 \<le> n \<and> n \<le> 90))"

definition is_digit :: "char \<Rightarrow> bool" where
  \<comment> \<open>the class \<open>\d\<close>, below 256\<close>
  "is_digit c = (let n = (of_char c :: nat) in 48 \<le> n \<and> n \<le> 57)"

definition strip :: "string \<Rightarrow> string" where
  \<comment> \<open>\<open>str.strip()\<close>\<close>
  "strip v = rev (dropWhile is_space (rev (dropWhile is_space v)))"

definition name_pattern :: "string \<Rightarrow> bool" where
  \<comment> \<open>\<open>re.fullmatch(r'^[a-zA-Z\s]+$', v)\<close>: the whole string, at least one character\<close>
  "name_pattern v = (v \<noteq> [] \<and> list_all (\<lambda>c. is_letter c \<or> is_space c) v)"

definition phone_pattern :: "string \<Rightarrow> bool" where
  \<comment> \<open>\<open>pattern=r"^\d{10}$"\<close>\<close>
  "phone_pattern v = (length v = 10 \<and> list_all is_digit v)"

section \<open>Decimal numbers\<close>

text \<open>
  A finite \<open>decimal.Decimal\<close> is a coefficient and an exponent, standing for
  \<open>coefficient * 10 ^ exponent\<close>. Comparisons of decimals are exact. The results of
  arithmetic are rounded to the precision of the default context, 28 significant digits,
  half to even. The exponent limits of the context (999999) and the sign of zero are left
  out: every decimal the services compute is built from positive prices and quantities.
\<close>

record decimal =
  coefficient :: int
  exponent :: int

definition Decimal :: "int \<Rightarrow> int \<Rightarrow> decimal" where
  "Decimal c e = \<lparr>coefficient = c, exponent = e\<rparr>"

definition dec_value :: "decimal \<Rightarrow> rat" where
  "dec_value d =
     (if 0 \<le> exponent d then of_int (coefficient d * 10 ^ nat (exponent d))
      else of_int (coefficient d) / of_int (10 ^ nat (- exponent d)))"

definition dec_less :: "decimal \<Rightarrow> decimal \<Rightarrow> bool" where
  "dec_less a b = (dec_value a < dec_value b)"

definition dec_le :: "decimal \<Rightarrow> decimal \<Rightarrow> bool" where
  "dec_le a b = (dec_value a \<le> dec_value b)"

definition decimal_places_ok :: "nat \<Rightarrow> decimal \<Rightarrow> bool" where
  \<comment> \<open>the constraint \<open>decimal_places=n\<close>: the number, trailing zeros dropped, has at
      most \<open>n\<close> digits after the point\<close>
  "decimal_places_ok n d =
     (coefficient d = 0 \<or> - int n \<le> exponent d \<or>
      coefficient d mod 10 ^ nat (- exponent d - int n) = 0)"

definition prec :: nat where
  "prec = 28"

function ndigits :: "int \<Rightarrow> nat" where
  \<comment> \<open>the number of digits of a coefficient\<close>
  "ndigits n = (if n < 10 then 1 else Suc (ndigits (n div 10)))"
  by pat_completeness auto
termination
  by (relation "measure nat") auto

declare ndigits.simps [simp del]

definition fix_prec :: "decimal \<Rightarrow> decimal" where
  \<comment> \<open>rounding of a result to \<open>prec\<close> digits, \<open>ROUND_HALF_EVEN\<close>\<close>
  "fix_prec d =
     (let c = coefficient d; a = \<bar>c\<bar> in
      if a < 10 ^ prec then d
      else
        let k = ndigits a - prec;
            q = a div 10 ^ k;
            r = a mod 10 ^ k;
            half = 5 * 10 ^ (k - 1);
            q' = (if half < r \<or> (r = half \<and> odd q) then q + 1 else q);
            s = (if c < 0 then - 1 else 1)
        in if q' = 10 ^ prec
           then Decimal (s * 10 ^ (prec - 1)) (exponent d + int k + 1)
           else Decimal (s * q') (exponent d + int k))"

definition dec_mul :: "decimal \<Rightarrow> decimal \<Rightarrow> decimal" where
  "dec_mul a b = fix_prec (Decimal (coefficient a * coefficient b) (exponent a + exponent b))"

definition dec_add :: "decimal \<Rightarrow> decimal \<Rightarrow> decimal" where
  "dec_add a b =
     (let e = min (exponent a) (exponent b)
      in fix_prec (Decimal (coefficient a * 10 ^ nat (exponent a - e) +
                            coefficient b * 10 ^ nat (exponent b - e)) e))"

definition dec_of_int :: "int \<Rightarrow> decimal" where
  \<comment> \<open>the conversion of an \<open>int\<close> operand\<close>
  "dec_of_int n = Decimal n 0"

section \<open>The menu model (both services declare the same classes)\<close>

datatype FoodCategory = APPETIZER | MAIN_COURSE | DESSERT | BEVERAGE | SALAD

fun FoodCategory_value :: "FoodCategory \<Rightarrow> string" where
  "FoodCategory_value APPETIZER = ''appetizer''"
| "FoodCategory_value MAIN_COURSE = ''main_course''"
| "FoodCategory_value DESSERT = ''dessert''"
| "FoodCategory_value BEVERAGE = ''beverage''"
| "FoodCategory_value SALAD = ''salad''"

datatype field_name =
  F_name | F_description | F_category | F_price | F_is_available | F_preparation_time |
  F_ingredients | F_calories | F_is_vegetarian | F_is_spicy | F_id

text \<open>
  A model instance holds its validated fields and the set of fields its caller gave
  (\<open>model_fields_set\<close>, which \<open>dict(exclude_unset=True)\<close> reads).
  \<open>FoodItem\<close> inherits from \<open>FoodItemCreate\<close> and adds \<open>id\<close>.
\<close>

record FoodItemCreate =
  name :: string
  description :: string
  category :: FoodCategory
  price :: decimal
  is_available :: bool
  preparation_time :: int
  ingredients :: "string list"
  calories :: "int option"
  is_vegetarian :: bool
  is_spicy :: bool
  fields_set :: "field_name set"

record FoodItem = FoodItemCreate +
  FoodItem_id :: int

text \<open>
  Keyword arguments and the dictionaries of \<open>.dict()\<close>: each key is present or absent.
  A request body is the same thing. Values have the type of their field (a body that is
  not even of the right shape is out of the model), and \<open>calories\<close> may be given as
  \<open>None\<close>.
\<close>

record item_dict =
  d_id :: "int option"
  d_name :: "string option"
  d_description :: "string option"
  d_category :: "FoodCategory option"
  d_price :: "decimal option"
  d_is_available :: "bool option"
  d_preparation_time :: "int option"
  d_ingredients :: "string list option"
  d_calories :: "int option option"
  d_is_vegetarian :: "bool option"
  d_is_spicy :: "bool option"

definition has_key :: "'a option \<Rightarrow> field_name \<Rightarrow> field_name list" where
  "has_key v f = (case v of None \<Rightarrow> [] | Some _ \<Rightarrow> [f])"

definition model_keys :: "item_dict \<Rightarrow> field_name list" where
  \<comment> \<open>the keys of the dictionary that are fields of \<open>FoodItemCreate\<close>\<close>
  "model_keys kw =
     has_key (d_name kw) F_name @ has_key (d_description kw) F_description @
     has_key (d_category kw) F_category @ has_key (d_price kw) F_price @
     has_key (d_is_available kw) F_is_available @
     has_key (d_preparation_time kw) F_preparation_time @
     has_key (d_ingredients kw) F_ingredients @ has_key (d_calories kw) F_calories @
     has_key (d_is_vegetarian kw) F_is_vegetarian @ has_key (d_is_spicy kw) F_is_spicy"

subsection \<open>Field constraints and validators\<close>

text \<open>
  A validator returns \<open>None\<close> where the source raises \<open>ValueError\<close>. The constraints
  of \<open>Field\<close> are checked first, on the value as given; a \<open>field_validator\<close> runs
  after them, on a value that passed, and its result is the value stored.
\<close>

definition str_field :: "nat \<Rightarrow> nat \<Rightarrow> string \<Rightarrow> string option" where
  \<comment> \<open>\<open>min_length\<close>, \<open>max_length\<close>\<close>
  "str_field lo hi v = (if lo \<le> length v \<and> length v \<le> hi then Some v else None)"

definition validate_name_characters :: "string \<Rightarrow> string option" where
  "validate_name_characters v = (if \<not> name_pattern v then None else Some (strip v))"

definition name_field :: "string \<Rightarrow> string option" where
  "name_field v = Option.bind (str_field 3 100 v) validate_name_characters"

definition description_field :: "string \<Rightarrow> string option" where
  "description_field v = str_field 10 500 v"

definition decimal_field :: "decimal \<Rightarrow> decimal option" where
  \<comment> \<open>\<open>gt=0, decimal_places=2\<close>\<close>
  "decimal_field v =
     (if dec_less (Decimal 0 0) v \<and> decimal_places_ok 2 v then Some v else None)"

definition validate_price_range :: "decimal \<Rightarrow> decimal option" where
  "validate_price_range v =
     (if \<not> (dec_le (Decimal 100 (- 2)) v \<and> dec_le v (Decimal 10000 (- 2))) then None
      else Some v)"

definition price_field :: "decimal \<Rightarrow> decimal option" where
  "price_field v = Option.bind (decimal_field v) validate_price_range"

definition preparation_time_field :: "int \<Rightarrow> int option" where
  \<comment> \<open>\<open>ge=1, le=120\<close>\<close>
  "preparation_time_field v = (if 1 \<le> v \<and> v \<le> 120 then Some v else None)"

definition ingredients_field :: "string list \<Rightarrow> string list option" where
  \<comment> \<open>\<open>min_items=1\<close>\<close>
  "ingredients_field v = (if 1 \<le> length v then Some v else None)"

definition calories_field :: "int option \<Rightarrow> int option option" where
  \<comment> \<open>\<open>Optional[int]\<close>, \<open>gt=0\<close> on an integer\<close>
  "calories_field v =
     (case v of None \<Rightarrow> Some None | Some n \<Rightarrow> if 0 < n then Some (Some n) else None)"

definition with_default :: "'a \<Rightarrow> 'a option \<Rightarrow> 'a" where
  "with_default dflt v = (case v of None \<Rightarrow> dflt | Some x \<Rightarrow> x)"

datatype py_exception = TypeError | ValidationError | AssertionError

definition is_ValueError :: "py_exception \<Rightarrow> bool" where
  \<comment> \<open>what \<open>except ValueError\<close> catches: pydantic's \<open>ValidationError\<close> is a
      \<open>ValueError\<close>, the other two are not\<close>
  "is_ValueError e = (e = ValidationError)"

definition validate_fields :: "item_dict \<Rightarrow> FoodItemCreate option" where
  \<comment> \<open>the validation of the ten fields of \<open>FoodItemCreate\<close>; other keys are ignored\<close>
  "validate_fields kw =
     do {
       n \<leftarrow> Option.bind (d_name kw) name_field;
       de \<leftarrow> Option.bind (d_description kw) description_field;
       c \<leftarrow> d_category kw;
       p \<leftarrow> Option.bind (d_price kw) price_field;
       t \<leftarrow> Option.bind (d_preparation_time kw) preparation_time_field;
       ing \<leftarrow> Option.bind (d_ingredients kw) ingredients_field;
       cal \<leftarrow> calories_field (with_default None (d_calories kw));
       Some \<lparr>name = n, description = de, category = c, price = p,
             is_available = with_default True (d_is_available kw),
             preparation_time = t, ingredients = ing, calories = cal,
             is_vegetarian = with_default False (d_is_vegetarian kw),
             is_spicy = with_default False (d_is_spicy kw),
             fields_set = set (model_keys kw)\<rparr>
     }"

definition FoodItemCreate_init :: "item_dict \<Rightarrow> py_exception + FoodItemCreate" where
  \<comment> \<open>\<open>FoodItemCreate(**kw)\<close>\<close>
  "FoodItemCreate_init kw =
     (case validate_fields kw of None \<Rightarrow> Inl ValidationError | Some m \<Rightarrow> Inr m)"

definition add_id :: "FoodItemCreate \<Rightarrow> int \<Rightarrow> FoodItem" where
  "add_id m i =
     \<lparr>name = name m, description = description m, category = category m, price = price m,
      is_available = is_available m, preparation_time = preparation_time m,
      ingredients = ingredients m, calories = calories m,
      is_vegetarian = is_vegetarian m, is_spicy = is_spicy m,
      fields_set = insert F_id (fields_set m), FoodItem_id = i\<rparr>"

definition FoodItem_init :: "int \<Rightarrow> item_dict \<Rightarrow> py_exception + FoodItem" where
  \<comment> \<open>\<open>FoodItem(id=i, **kw)\<close>: a key \<open>id\<close> in \<open>kw\<close> is a second value for the keyword
      \<open>id\<close>, and the call raises \<open>TypeError\<close> before the class is entered\<close>
  "FoodItem_init i kw =
     (if d_id kw \<noteq> None then Inl TypeError
      else (case validate_fields kw of
              None \<Rightarrow> Inl ValidationError
            | Some m \<Rightarrow> Inr (add_id m i)))"

definition FoodItemCreate_dict :: "FoodItemCreate \<Rightarrow> item_dict" where
  \<comment> \<open>\<open>.dict()\<close> of a \<open>FoodItemCreate\<close>\<close>
  "FoodItemCreate_dict m =
     \<lparr>d_id = None, d_name = Some (name m), d_description = Some (description m),
      d_category = Some (category m), d_price = Some (price m),
      d_is_available = Some (is_available m),
      d_preparation_time = Some (preparation_time m),
      d_ingredients = Some (ingredients m), d_calories = Some (calories m),
      d_is_vegetarian = Some (is_vegetarian m), d_is_spicy = Some (is_spicy m)\<rparr>"

definition FoodItem_dict :: "FoodItem \<Rightarrow> item_dict" where
  \<comment> \<open>\<open>.dict()\<close> of a \<open>FoodItem\<close>: the inherited fields and \<open>id\<close>\<close>
  "FoodItem_dict m =
     \<lparr>d_id = Some (FoodItem_id m), d_name = Some (name m),
      d_description = Some (description m),
      d_category = Some (category m), d_price = Some (price m),
      d_is_available = Some (is_available m),
      d_preparation_time = Some (preparation_time m),
      d_ingredients = Some (ingredients m), d_calories = Some (calories m),
      d_is_vegetarian = Some (is_vegetarian m), d_is_spicy = Some (is_spicy m)\<rparr>"

definition if_set :: "FoodItemCreate \<Rightarrow> field_name \<Rightarrow> 'a \<Rightarrow> 'a option" where
  "if_set m f v = (if f \<in> fields_set m then Some v else None)"

definition dict_exclude_unset :: "FoodItemCreate \<Rightarrow> item_dict" where
  \<comment> \<open>\<open>.dict(exclude_unset=True)\<close>\<close>
  "dict_exclude_unset m =
     \<lparr>d_id = None, d_name = if_set m F_name (name m),
      d_description = if_set m F_description (description m),
      d_category = if_set m F_category (category m), d_price = if_set m F_price (price m),
      d_is_available = if_set m F_is_available (is_available m),
      d_preparation_time = if_set m F_preparation_time (preparation_time m),
      d_ingredients = if_set m F_ingredients (ingredients m),
      d_calories = if_set m F_calories (calories m),
      d_is_vegetarian = if_set m F_is_vegetarian (is_vegetarian m),
      d_is_spicy = if_set m F_is_spicy (is_spicy m)\<rparr>"

definition overwrite :: "'a option \<Rightarrow> 'a option \<Rightarrow> 'a option" where
  \<comment> \<open>\<open>existing[field] = value\<close> for a key of the update, the old entry otherwise\<close>
  "overwrite new old = (case new of None \<Rightarrow> old | Some v \<Rightarrow> Some v)"

definition dict_update :: "item_dict \<Rightarrow> item_dict \<Rightarrow> item_dict" where
  \<comment> \<open>\<open>for field, value in upd.items(): existing[field] = value\<close>\<close>
  "dict_update existing upd =
     \<lparr>d_id = overwrite (d_id upd) (d_id existing),
      d_name = overwrite (d_name upd) (d_name existing),
      d_description = overwrite (d_description upd) (d_description existing),
      d_category = overwrite (d_category upd) (d_category existing),
      d_price = overwrite (d_price upd) (d_price existing),
      d_is_available = overwrite (d_is_available upd) (d_is_available existing),
      d_preparation_time = overwrite (d_preparation_time upd) (d_preparation_time existing),
      d_ingredients = overwrite (d_ingredients upd) (d_ingredients existing),
      d_calories = overwrite (d_calories upd) (d_calories existing),
      d_is_vegetarian = overwrite (d_is_vegetarian upd) (d_is_vegetarian existing),
      d_is_spicy = overwrite (d_is_spicy upd) (d_is_spicy existing)\<rparr>"

subsection \<open>Computed properties\<close>

definition price_category :: "'a FoodItemCreate_scheme \<Rightarrow> string" where
  "price_category self =
     (if dec_less (price self) (Decimal 1000 (- 2)) then ''Budget''
      else if dec_le (Decimal 1000 (- 2)) (price self) \<and>
              dec_le (price self) (Decimal 2500 (- 2)) then ''Mid-range''
      else ''Premium'')"

definition dietary_info :: "'a FoodItemCreate_scheme \<Rightarrow> string list" where
  "dietary_info self =
     (if is_vegetarian self then [''Vegetarian''] else []) @
     (if is_spicy self then [''Spicy''] else [])"

section \<open>Dictionaries that keep insertion order\<close>

text \<open>
  \<open>menu_db\<close> and \<open>orders_db\<close> are Python dictionaries: \<open>values()\<close> lists the entries
  in the order their keys were first inserted, assigning to a key that is present keeps
  its place, and \<open>del\<close> removes the entry.
\<close>

fun dict_set :: "'k \<Rightarrow> 'v \<Rightarrow> ('k \<times> 'v) list \<Rightarrow> ('k \<times> 'v) list" where
  "dict_set k v [] = [(k, v)]"
| "dict_set k v (e # d) = (if fst e = k then (k, v) # d else e # dict_set k v d)"

definition dict_del :: "'k \<Rightarrow> ('k \<times> 'v) list \<Rightarrow> ('k \<times> 'v) list" where
  "dict_del k d = filter (\<lambda>e. fst e \<noteq> k) d"

definition dict_values :: "('k \<times> 'v) list \<Rightarrow> 'v list" where
  "dict_values d = map snd d"

section \<open>Failures of a request\<close>

text \<open>
  What leaves a handler: an \<open>HTTPException\<close> with its status code and detail, or an
  exception nothing caught, which the framework answers with status 500.
\<close>

datatype failure =
  HTTPException nat string
| Uncaught py_exception

definition HTTP_404_NOT_FOUND :: nat where
  "HTTP_404_NOT_FOUND = 404"

definition HTTP_422_UNPROCESSABLE_ENTITY :: nat where
  "HTTP_422_UNPROCESSABLE_ENTITY = 422"

definition not_found :: failure where
  "not_found = HTTPException HTTP_404_NOT_FOUND ''Food item not found''"

definition update_invalid :: failure where
  \<comment> \<open>the detail goes on with the text of the validation error, left out here\<close>
  "update_invalid =
     HTTPException HTTP_422_UNPROCESSABLE_ENTITY ''Validation error during update: ''"

definition no_items_in :: "FoodCategory \<Rightarrow> failure" where
  "no_items_in c =
     HTTPException HTTP_404_NOT_FOUND
       (''No items found in category '' @ [CHR 0x27] @ FoodCategory_value c @ [CHR 0x27])"

text \<open>
  The answer to a request. A route with a body parameter of type \<open>FoodItemCreate\<close>
  builds the model from the body first: a body the model rejects is answered with 422
  (\<open>RequestValidationError\<close>) and the handler is not called.
\<close>

datatype payload =
  Items "FoodItem list"
| Item FoodItem
| Message string

datatype answer =
  RequestValidationError
| Failed failure
| OK payload

datatype request =
  GET_menu
| GET_menu_item int
| POST_menu item_dict
| PUT_menu_item int item_dict
| DELETE_menu_item int
| GET_menu_category FoodCategory

definition reply :: "('a \<Rightarrow> payload) \<Rightarrow> failure + 'a \<Rightarrow> answer" where
  "reply f r = (case r of Inl e \<Rightarrow> Failed e | Inr v \<Rightarrow> OK (f v))"

definition with_body ::
  "item_dict \<Rightarrow> (FoodItemCreate \<Rightarrow> 's \<Rightarrow> (failure + FoodItem) \<times> 's) \<Rightarrow> 's \<Rightarrow> answer \<times> 's" where
  "with_body body handler s =
     (case FoodItemCreate_init body of
        Inl _ \<Rightarrow> (RequestValidationError, s)
      | Inr model \<Rightarrow> (let (r, s') = handler model s in (reply Item r, s')))"

section \<open>The menu service (\<open>Restaurant_Chain/main.py\<close>)\<close>

record menu_state =
  menu_db :: "(int \<times> FoodItem) list"
  last_item_id :: int

definition add_item_to_db ::
  "FoodItemCreate \<Rightarrow> menu_state \<Rightarrow> (py_exception + FoodItem) \<times> menu_state" where
  \<comment> \<open>the counter is incremented before \<open>FoodItem\<close> is built\<close>
  "add_item_to_db item_data s =
     (let s = s\<lparr>last_item_id := last_item_id s + 1\<rparr>
      in (case FoodItem_init (last_item_id s) (FoodItemCreate_dict item_data) of
            Inl e \<Rightarrow> (Inl e, s)
          | Inr new_item \<Rightarrow>
              (Inr new_item, s\<lparr>menu_db := dict_set (last_item_id s) new_item (menu_db s)\<rparr>)))"

definition get_all_menu_items :: "menu_state \<Rightarrow> FoodItem list" where
  "get_all_menu_items s = dict_values (menu_db s)"

definition get_menu_item :: "int \<Rightarrow> menu_state \<Rightarrow> failure + FoodItem" where
  "get_menu_item item_id s =
     (case map_of (menu_db s) item_id of
        None \<Rightarrow> Inl not_found
      | Some item \<Rightarrow> Inr item)"

definition add_menu_item ::
  "FoodItemCreate \<Rightarrow> menu_state \<Rightarrow> (failure + FoodItem) \<times> menu_state" where
  "add_menu_item item s =
     (let (r, s') = add_item_to_db item s
      in (case r of Inl e \<Rightarrow> (Inl (Uncaught e), s') | Inr new_item \<Rightarrow> (Inr new_item, s')))"

definition update_menu_item ::
  "int \<Rightarrow> FoodItemCreate \<Rightarrow> menu_state \<Rightarrow> (failure + FoodItem) \<times> menu_state" where
  \<comment> \<open>\<open>except ValueError\<close> turns a validation error into the 422; any other exception
      passes it\<close>
  "update_menu_item item_id updated_item s =
     (case map_of (menu_db s) item_id of
        None \<Rightarrow> (Inl not_found, s)
      | Some existing \<Rightarrow>
          (let existing_item_data =
                 dict_update (FoodItem_dict existing) (dict_exclude_unset updated_item)
           in (case FoodItem_init item_id existing_item_data of
                 Inr re_validated_item \<Rightarrow>
                   (Inr re_validated_item,
                    s\<lparr>menu_db := dict_set item_id re_validated_item (menu_db s)\<rparr>)
               | Inl e \<Rightarrow>
                   (if is_ValueError e then (Inl update_invalid, s)
                    else (Inl (Uncaught e), s)))))"

definition delete_menu_item ::
  "int \<Rightarrow> menu_state \<Rightarrow> (failure + string) \<times> menu_state" where
  "delete_menu_item item_id s =
     (case map_of (menu_db s) item_id of
        None \<Rightarrow> (Inl not_found, s)
      | Some _ \<Rightarrow>
          (Inr ''Food item deleted successfully'',
           s\<lparr>menu_db := dict_del item_id (menu_db s)\<rparr>))"

definition get_items_by_category :: "FoodCategory \<Rightarrow> menu_state \<Rightarrow> failure + FoodItem list" where
  "get_items_by_category c s =
     (let filtered_items = filter (\<lambda>item. category item = c) (dict_values (menu_db s))
      in if filtered_items = [] then Inl (no_items_in c) else Inr filtered_items)"

fun serve :: "request \<Rightarrow> menu_state \<Rightarrow> answer \<times> menu_state" where
  "serve GET_menu s = (OK (Items (get_all_menu_items s)), s)"
| "serve (GET_menu_item i) s = (reply Item (get_menu_item i s), s)"
| "serve (POST_menu body) s = with_body body add_menu_item s"
| "serve (PUT_menu_item i body) s = with_body body (update_menu_item i) s"
| "serve (DELETE_menu_item i) s =
     (let (r, s') = delete_menu_item i s in (reply Message r, s'))"
| "serve (GET_menu_category c) s = (reply Items (get_items_by_category c s), s)"

fun serve_all :: "request list \<Rightarrow> menu_state \<Rightarrow> answer list \<times> menu_state" where
  "serve_all [] s = ([], s)"
| "serve_all (r # rs) s =
     (let (a, s') = serve r s; (as, s'') = serve_all rs s' in (a # as, s''))"

subsection \<open>Sample data and start-up\<close>

definition margherita_pizza :: item_dict where
  "margherita_pizza =
     \<lparr>d_id = None,
      d_name = Some ''Margherita Pizza'',
      d_description = Some
        ''Classic Pizza with tomato sauce, mozzarella cheese, and fresh basil'',
      d_category = Some MAIN_COURSE,
      d_price = Some (Decimal 1599 (- 2)),
      d_is_available = None,
      d_preparation_time = Some 20,
      d_ingredients = Some
        [''pizza dough'', ''tomato sauce'', ''mozzarella'', ''basil'', ''olive oil''],
      d_calories = Some (Some 650),
      d_is_vegetarian = Some True,
      d_is_spicy = Some False\<rparr>"

definition spicy_chicken_wings :: item_dict where
  "spicy_chicken_wings =
     \<lparr>d_id = None,
      d_name = Some ''Spicy Chicken Wings'',
      d_description = Some
        ''Crispy chicken wings tossed in our signature hot sauce'',
      d_category = Some APPETIZER,
      d_price = Some (Decimal 1250 (- 2)),
      d_is_available = None,
      d_preparation_time = Some 15,
      d_ingredients = Some
        [''chicken wings'', ''hot sauce'', ''butter'', ''celery salt''],
      d_calories = Some (Some 420),
      d_is_vegetarian = Some False,
      d_is_spicy = Some True\<rparr>"

definition caesar_salad :: item_dict where
  "caesar_salad =
     \<lparr>d_id = None,
      d_name = Some ''Caesar Salad'',
      d_description = Some
        ''Fresh romaine lettuce, croutons, parmesan cheese, and Caesar dressing'',
      d_category = Some SALAD,
      d_price = Some (Decimal 875 (- 2)),
      d_is_available = None,
      d_preparation_time = Some 10,
      d_ingredients = Some
        [''romaine lettuce'', ''croutons'', ''parmesan cheese'', ''Caesar dressing''],
      d_calories = Some (Some 300),
      d_is_vegetarian = Some True,
      d_is_spicy = Some False\<rparr>"

definition chocolate_lava_cake :: item_dict where
  "chocolate_lava_cake =
     \<lparr>d_id = None,
      d_name = Some ''Chocolate Lava Cake'',
      d_description = Some
        ''Warm chocolate cake with a molten chocolate center, served with vanilla ice cream'',
      d_category = Some DESSERT,
      d_price = Some (Decimal 799 (- 2)),
      d_is_available = None,
      d_preparation_time = Some 25,
      d_ingredients = Some
        [''chocolate'', ''flour'', ''sugar'', ''eggs'', ''butter'', ''ice cream''],
      d_calories = Some (Some 750),
      d_is_vegetarian = Some True,
      d_is_spicy = Some False\<rparr>"

definition orange_juice :: item_dict where
  "orange_juice =
     \<lparr>d_id = None,
      d_name = Some ''Orange Juice'',
      d_description = Some
        ''Freshly squeezed orange juice'',
      d_category = Some BEVERAGE,
      d_price = Some (Decimal 350 (- 2)),
      d_is_available = None,
      d_preparation_time = Some 5,
      d_ingredients = Some
        [''oranges''],
      d_calories = Some (Some 120),
      d_is_vegetarian = Some True,
      d_is_spicy = Some False\<rparr>"

definition sample_menu_items_raw :: "item_dict list" where
  "sample_menu_items_raw =
     [margherita_pizza, spicy_chicken_wings, caesar_salad, chocolate_lava_cake, orange_juice]"

fun populate :: "item_dict list \<Rightarrow> menu_state \<Rightarrow> py_exception + menu_state" where
  \<comment> \<open>\<open>for item_data in ...: add_item_to_db(FoodItemCreate(**item_data_copy))\<close>\<close>
  "populate [] s = Inr s"
| "populate (item_data # rest) s =
     (case FoodItemCreate_init item_data of
        Inl e \<Rightarrow> Inl e
      | Inr m \<Rightarrow>
          (case add_item_to_db m s of
             (Inl e, _) \<Rightarrow> Inl e
           | (Inr _, s') \<Rightarrow> populate rest s'))"

definition empty_menu :: menu_state where
  \<comment> \<open>\<open>menu_db = {}\<close>, \<open>last_item_id = 0\<close>\<close>
  "empty_menu = \<lparr>menu_db = [], last_item_id = 0\<rparr>"

definition startup :: "py_exception + menu_state" where
  "startup = populate sample_menu_items_raw empty_menu"

subsection \<open>The demonstration endpoint \<open>/test-cases\<close>\<close>

definition invalid_price_item :: item_dict where
  "invalid_price_item =
     \<lparr>d_id = None,
      d_name = Some ''Tiny Snack'',
      d_description = Some
        ''A very tiny snack for a very tiny price'',
      d_category = Some APPETIZER,
      d_price = Some (Decimal 50 (- 2)),
      d_is_available = None,
      d_preparation_time = Some 5,
      d_ingredients = Some
        [''bread'', ''butter''],
      d_calories = None,
      d_is_vegetarian = None,
      d_is_spicy = None\<rparr>"

definition invalid_category_spicy_item :: item_dict where
  "invalid_category_spicy_item =
     \<lparr>d_id = None,
      d_name = Some ''Spicy Lemonade'',
      d_description = Some
        ''Lemonade with a kick!'',
      d_category = Some BEVERAGE,
      d_price = Some (Decimal 400 (- 2)),
      d_is_available = None,
      d_preparation_time = Some 5,
      d_ingredients = Some
        [''lemon'', ''sugar'', ''water'', ''chili''],
      d_calories = None,
      d_is_vegetarian = None,
      d_is_spicy = Some True\<rparr>"

definition missing_ingredients_item :: item_dict where
  "missing_ingredients_item =
     \<lparr>d_id = None,
      d_name = Some ''Empty Dish'',
      d_description = Some
        ''A dish with no ingredients'',
      d_category = Some MAIN_COURSE,
      d_price = Some (Decimal 1000 (- 2)),
      d_is_available = None,
      d_preparation_time = Some 10,
      d_ingredients = Some
        [],
      d_calories = None,
      d_is_vegetarian = None,
      d_is_spicy = None\<rparr>"

definition invalid_name_item :: item_dict where
  "invalid_name_item =
     \<lparr>d_id = None,
      d_name = Some ''Pizza123!'',
      d_description = Some
        ''Pizza with invalid characters in name'',
      d_category = Some MAIN_COURSE,
      d_price = Some (Decimal 1500 (- 2)),
      d_is_available = None,
      d_preparation_time = Some 20,
      d_ingredients = Some
        [''dough'', ''cheese''],
      d_calories = None,
      d_is_vegetarian = None,
      d_is_spicy = None\<rparr>"

definition high_cal_veg_item :: item_dict where
  "high_cal_veg_item =
     \<lparr>d_id = None,
      d_name = Some ''Giant Veggie Burger'',
      d_description = Some
        ''A huge burger for vegetarians'',
      d_category = Some MAIN_COURSE,
      d_price = Some (Decimal 1800 (- 2)),
      d_is_available = None,
      d_preparation_time = Some 30,
      d_ingredients = Some
        [''patty'', ''bun'', ''lettuce''],
      d_calories = Some (Some 850),
      d_is_vegetarian = Some True,
      d_is_spicy = None\<rparr>"

definition long_prep_beverage :: item_dict where
  "long_prep_beverage =
     \<lparr>d_id = None,
      d_name = Some ''Slow Brew Coffee'',
      d_description = Some
        ''Coffee that takes a long time to make'',
      d_category = Some BEVERAGE,
      d_price = Some (Decimal 500 (- 2)),
      d_is_available = None,
      d_preparation_time = Some 12,
      d_ingredients = Some
        [''coffee beans'', ''water''],
      d_calories = None,
      d_is_vegetarian = None,
      d_is_spicy = None\<rparr>"

definition should_fail :: "item_dict \<Rightarrow> py_exception + string" where
  \<comment> \<open>\<open>try: FoodItemCreate(...); status "FAIL"\<close>, \<open>except ValueError: status "PASS"\<close>\<close>
  "should_fail kw =
     (case FoodItemCreate_init kw of
        Inr _ \<Rightarrow> Inr ''FAIL''
      | Inl e \<Rightarrow> if is_ValueError e then Inr ''PASS'' else Inl e)"

definition run_test_cases :: "(string \<times> (py_exception + string)) list" where
  \<comment> \<open>the status reported for each scenario, in the order of the report\<close>
  "run_test_cases =
     [(''invalid_price_test'', should_fail invalid_price_item),
      (''invalid_category_spicy_test'', should_fail invalid_category_spicy_item),
      (''missing_ingredients_test'', should_fail missing_ingredients_item),
      (''invalid_name_test'', should_fail invalid_name_item),
      (''high_cal_veg_test'', should_fail high_cal_veg_item),
      (''long_prep_beverage_test'', should_fail long_prep_beverage)]"

section \<open>The order model (\<open>Restaurant_Chain_Two_tables/main.py\<close>)\<close>

datatype OrderStatus = PENDING | CONFIRMED | READY | DELIVERED

record OrderItem =
  menu_item_id :: int
  menu_item_name :: string
  quantity :: int
  unit_price :: decimal

record Customer =
  Customer_name :: string
  phone :: string
  address :: string

record OrderCreate =
  customer :: Customer
  items :: "OrderItem list"

record Order = OrderCreate +
  Order_id :: int
  status :: OrderStatus

text \<open>
  The body of an order request, and the keyword arguments \<open>**order_data.dict()\<close>: the
  nested dictionaries have every key of their model, so they are written as the records.
\<close>

record order_dict =
  o_id :: "int option"
  o_status :: "OrderStatus option"
  o_customer :: "Customer option"
  o_items :: "OrderItem list option"

definition OrderItem_ok :: "OrderItem \<Rightarrow> bool" where
  \<comment> \<open>\<open>gt=0\<close>; \<open>min_length=1, max_length=100\<close>; \<open>gt=0, le=10\<close>;
      \<open>gt=0, decimal_places=2\<close>\<close>
  "OrderItem_ok v =
     (0 < menu_item_id v \<and>
      str_field 1 100 (menu_item_name v) \<noteq> None \<and>
      0 < quantity v \<and> quantity v \<le> 10 \<and>
      decimal_field (unit_price v) \<noteq> None)"

definition Customer_ok :: "Customer \<Rightarrow> bool" where
  \<comment> \<open>\<open>min_length=2, max_length=50\<close>; the pattern; \<open>min_length=5\<close>\<close>
  "Customer_ok v =
     (str_field 2 50 (Customer_name v) \<noteq> None \<and>
      phone_pattern (phone v) \<and>
      5 \<le> length (address v))"

definition validate_order :: "order_dict \<Rightarrow> OrderCreate option" where
  \<comment> \<open>the fields of \<open>OrderCreate\<close>: both required, \<open>items\<close> with \<open>min_items=1\<close>\<close>
  "validate_order kw =
     do {
       c \<leftarrow> o_customer kw;
       its \<leftarrow> o_items kw;
       if Customer_ok c \<and> 1 \<le> length its \<and> list_all OrderItem_ok its
       then Some \<lparr>customer = c, items = its\<rparr>
       else None
     }"

definition OrderCreate_init :: "order_dict \<Rightarrow> py_exception + OrderCreate" where
  \<comment> \<open>\<open>OrderCreate(**kw)\<close>\<close>
  "OrderCreate_init kw =
     (case validate_order kw of None \<Rightarrow> Inl ValidationError | Some m \<Rightarrow> Inr m)"

definition OrderCreate_dict :: "OrderCreate \<Rightarrow> order_dict" where
  \<comment> \<open>\<open>.dict()\<close> of an \<open>OrderCreate\<close>\<close>
  "OrderCreate_dict m =
     \<lparr>o_id = None, o_status = None, o_customer = Some (customer m),
      o_items = Some (items m)\<rparr>"

definition Order_init :: "int \<Rightarrow> OrderStatus \<Rightarrow> order_dict \<Rightarrow> py_exception + Order" where
  \<comment> \<open>\<open>Order(id=i, status=st, **kw)\<close>\<close>
  "Order_init i st kw =
     (if o_id kw \<noteq> None \<or> o_status kw \<noteq> None then Inl TypeError
      else (case validate_order kw of
              None \<Rightarrow> Inl ValidationError
            | Some m \<Rightarrow>
                Inr \<lparr>customer = customer m, items = items m, Order_id = i, status = st\<rparr>))"

subsection \<open>Computed totals\<close>

definition item_total :: "OrderItem \<Rightarrow> decimal" where
  \<comment> \<open>\<open>self.quantity * self.unit_price\<close>, an \<open>int\<close> times a \<open>Decimal\<close>\<close>
  "item_total self = dec_mul (dec_of_int (quantity self)) (unit_price self)"

definition total_amount :: "Order \<Rightarrow> decimal" where
  \<comment> \<open>\<open>sum(...)\<close> adds from the left, starting at \<open>0\<close>\<close>
  "total_amount self = foldl dec_add (dec_of_int 0) (map item_total (items self))"

definition DELIVERY_FEE :: decimal where
  "DELIVERY_FEE = Decimal 299 (- 2)"

definition total_amount_with_delivery :: "Order \<Rightarrow> decimal" where
  "total_amount_with_delivery self = dec_add (total_amount self) DELIVERY_FEE"

definition total_items_count :: "Order \<Rightarrow> int" where
  "total_items_count self = int (length (items self))"

definition total_quantity :: "Order \<Rightarrow> int" where
  "total_quantity self = foldl (+) 0 (map quantity (items self))"

section \<open>The order and menu service (\<open>Restaurant_Chain_Two_tables/main.py\<close>)\<close>

text \<open>
  The names of the menu handlers are those of the menu service; here they carry the
  suffix \<open>_tt\<close>.
\<close>

record order_state =
  menu_db_tt :: "(int \<times> FoodItem) list"
  orders_db :: "(int \<times> Order) list"
  next_menu_id :: int
  next_order_id :: int

definition add_food_item_to_db ::
  "FoodItemCreate \<Rightarrow> order_state \<Rightarrow> (py_exception + FoodItem) \<times> order_state" where
  \<comment> \<open>the counter is incremented after the item is stored\<close>
  "add_food_item_to_db item_data s =
     (case FoodItem_init (next_menu_id s) (FoodItemCreate_dict item_data) of
        Inl e \<Rightarrow> (Inl e, s)
      | Inr new_item \<Rightarrow>
          (Inr new_item,
           s\<lparr>menu_db_tt := dict_set (next_menu_id s) new_item (menu_db_tt s),
             next_menu_id := next_menu_id s + 1\<rparr>))"

definition add_menu_item_tt ::
  "FoodItemCreate \<Rightarrow> order_state \<Rightarrow> (failure + FoodItem) \<times> order_state" where
  "add_menu_item_tt item s =
     (let (r, s') = add_food_item_to_db item s
      in (case r of Inl e \<Rightarrow> (Inl (Uncaught e), s') | Inr new_item \<Rightarrow> (Inr new_item, s')))"

definition get_all_menu_items_tt :: "order_state \<Rightarrow> FoodItem list" where
  "get_all_menu_items_tt s = dict_values (menu_db_tt s)"

definition get_menu_item_tt :: "int \<Rightarrow> order_state \<Rightarrow> failure + FoodItem" where
  "get_menu_item_tt item_id s =
     (case map_of (menu_db_tt s) item_id of
        None \<Rightarrow> Inl not_found
      | Some item \<Rightarrow> Inr item)"

definition update_menu_item_tt ::
  "int \<Rightarrow> FoodItemCreate \<Rightarrow> order_state \<Rightarrow> (failure + FoodItem) \<times> order_state" where
  "update_menu_item_tt item_id updated_item s =
     (case map_of (menu_db_tt s) item_id of
        None \<Rightarrow> (Inl not_found, s)
      | Some existing \<Rightarrow>
          (let existing_item_data =
                 dict_update (FoodItem_dict existing) (dict_exclude_unset updated_item)
           in (case FoodItem_init item_id existing_item_data of
                 Inr re_validated_item \<Rightarrow>
                   (Inr re_validated_item,
                    s\<lparr>menu_db_tt := dict_set item_id re_validated_item (menu_db_tt s)\<rparr>)
               | Inl e \<Rightarrow>
                   (if is_ValueError e then (Inl update_invalid, s)
                    else (Inl (Uncaught e), s)))))"

definition delete_menu_item_tt ::
  "int \<Rightarrow> order_state \<Rightarrow> (failure + string) \<times> order_state" where
  "delete_menu_item_tt item_id s =
     (case map_of (menu_db_tt s) item_id of
        None \<Rightarrow> (Inl not_found, s)
      | Some _ \<Rightarrow>
          (Inr ''Food item deleted successfully'',
           s\<lparr>menu_db_tt := dict_del item_id (menu_db_tt s)\<rparr>))"

definition get_items_by_category_tt ::
  "FoodCategory \<Rightarrow> order_state \<Rightarrow> failure + FoodItem list" where
  "get_items_by_category_tt c s =
     (let filtered_items = filter (\<lambda>item. category item = c) (dict_values (menu_db_tt s))
      in if filtered_items = [] then Inl (no_items_in c) else Inr filtered_items)"

fun serve_tt :: "request \<Rightarrow> order_state \<Rightarrow> answer \<times> order_state" where
  "serve_tt GET_menu s = (OK (Items (get_all_menu_items_tt s)), s)"
| "serve_tt (GET_menu_item i) s = (reply Item (get_menu_item_tt i s), s)"
| "serve_tt (POST_menu body) s = with_body body add_menu_item_tt s"
| "serve_tt (PUT_menu_item i body) s = with_body body (update_menu_item_tt i) s"
| "serve_tt (DELETE_menu_item i) s =
     (let (r, s') = delete_menu_item_tt i s in (reply Message r, s'))"
| "serve_tt (GET_menu_category c) s = (reply Items (get_items_by_category_tt c s), s)"

fun serve_all_tt :: "request list \<Rightarrow> order_state \<Rightarrow> answer list \<times> order_state" where
  "serve_all_tt [] s = ([], s)"
| "serve_all_tt (r # rs) s =
     (let (a, s') = serve_tt r s; (as, s'') = serve_all_tt rs s' in (a # as, s''))"

subsection \<open>Order handlers\<close>

definition order_not_found :: failure where
  "order_not_found = HTTPException HTTP_404_NOT_FOUND ''Order not found''"

definition create_order ::
  "OrderCreate \<Rightarrow> order_state \<Rightarrow> (failure + Order) \<times> order_state" where
  \<comment> \<open>nothing of \<open>menu_db\<close> is read\<close>
  "create_order order_data s =
     (case Order_init (next_order_id s) PENDING (OrderCreate_dict order_data) of
        Inl e \<Rightarrow> (Inl (Uncaught e), s)
      | Inr new_order \<Rightarrow>
          (Inr new_order,
           s\<lparr>orders_db := dict_set (next_order_id s) new_order (orders_db s),
             next_order_id := next_order_id s + 1\<rparr>))"

definition get_order_details :: "int \<Rightarrow> order_state \<Rightarrow> failure + Order" where
  "get_order_details order_id s =
     (case map_of (orders_db s) order_id of
        None \<Rightarrow> Inl order_not_found
      | Some order \<Rightarrow> Inr order)"

definition update_order_status ::
  "int \<Rightarrow> OrderStatus \<Rightarrow> order_state \<Rightarrow> (failure + Order) \<times> order_state" where
  "update_order_status order_id new_status s =
     (case map_of (orders_db s) order_id of
        None \<Rightarrow> (Inl order_not_found, s)
      | Some order \<Rightarrow>
          (let order = order\<lparr>status := new_status\<rparr>
           in (Inr order, s\<lparr>orders_db := dict_set order_id order (orders_db s)\<rparr>)))"

subsection \<open>Sample data and start-up\<close>

definition seasonal_soup :: item_dict where
  "seasonal_soup =
     \<lparr>d_id = None,
      d_name = Some ''Seasonal Soup'',
      d_description = Some
        ''Hearty soup available only in winter'',
      d_category = Some APPETIZER,
      d_price = Some (Decimal 600 (- 2)),
      d_is_available = Some False,
      d_preparation_time = Some 10,
      d_ingredients = Some
        [''vegetables'', ''broth''],
      d_calories = Some (Some 250),
      d_is_vegetarian = Some True,
      d_is_spicy = Some False\<rparr>"

definition sample_food_items_raw :: "item_dict list" where
  "sample_food_items_raw =
     [margherita_pizza, spicy_chicken_wings, caesar_salad, chocolate_lava_cake, orange_juice,
      seasonal_soup]"

fun populate_tt :: "item_dict list \<Rightarrow> order_state \<Rightarrow> py_exception + order_state" where
  "populate_tt [] s = Inr s"
| "populate_tt (item_data # rest) s =
     (case FoodItemCreate_init item_data of
        Inl e \<Rightarrow> Inl e
      | Inr m \<Rightarrow>
          (case add_food_item_to_db m s of
             (Inl e, _) \<Rightarrow> Inl e
           | (Inr _, s') \<Rightarrow> populate_tt rest s'))"

definition empty_tt :: order_state where
  "empty_tt = \<lparr>menu_db_tt = [], orders_db = [], next_menu_id = 1, next_order_id = 1\<rparr>"

definition startup_tt :: "py_exception + order_state" where
  "startup_tt = populate_tt sample_food_items_raw empty_tt"

subsection \<open>The demonstration endpoint \<open>/run-order-tests\<close>\<close>

definition valid_order_payload :: order_dict where
  "valid_order_payload =
     \<lparr>o_id = None, o_status = None,
      o_customer = Some
        \<lparr>Customer_name = ''Alice Smith'', phone = ''5551234567'',
          address = ''123 Oak Street, Springfield''\<rparr>,
      o_items = Some
        [\<lparr>menu_item_id = 1, menu_item_name = ''Margherita Pizza'', quantity = 1,
            unit_price = (Decimal 1599 (- 2))\<rparr>,
         \<lparr>menu_item_id = 2, menu_item_name = ''Spicy Chicken Wings'', quantity = 2,
            unit_price = (Decimal 1250 (- 2))\<rparr>]\<rparr>"

definition empty_items_payload :: order_dict where
  "empty_items_payload =
     \<lparr>o_id = None, o_status = None,
      o_customer = Some
        \<lparr>Customer_name = ''Bob Johnson'', phone = ''5559876543'',
          address = ''456 Pine Ave''\<rparr>,
      o_items = Some
        []\<rparr>"

definition invalid_phone_payload :: order_dict where
  "invalid_phone_payload =
     \<lparr>o_id = None, o_status = None,
      o_customer = Some
        \<lparr>Customer_name = ''Charlie Brown'', phone = ''123'',
          address = ''789 Cedar Rd''\<rparr>,
      o_items = Some
        [\<lparr>menu_item_id = 3, menu_item_name = ''Caesar Salad'', quantity = 1,
            unit_price = (Decimal 875 (- 2))\<rparr>]\<rparr>"

definition large_quantity_payload :: order_dict where
  "large_quantity_payload =
     \<lparr>o_id = None, o_status = None,
      o_customer = Some
        \<lparr>Customer_name = ''Diana Prince'', phone = ''5551112222'',
          address = ''101 Paradise Island''\<rparr>,
      o_items = Some
        [\<lparr>menu_item_id = 4, menu_item_name = ''Chocolate Lava Cake'', quantity = 15,
            unit_price = (Decimal 799 (- 2))\<rparr>]\<rparr>"

definition invalid_menu_item_id_payload :: order_dict where
  "invalid_menu_item_id_payload =
     \<lparr>o_id = None, o_status = None,
      o_customer = Some
        \<lparr>Customer_name = ''Eve Adams'', phone = ''5553334444'',
          address = ''789 Fake Street''\<rparr>,
      o_items = Some
        [\<lparr>menu_item_id = 999, menu_item_name = ''Non Existent'', quantity = 1,
            unit_price = (Decimal 1000 (- 2))\<rparr>]\<rparr>"

definition price_mismatch_payload :: order_dict where
  "price_mismatch_payload =
     \<lparr>o_id = None, o_status = None,
      o_customer = Some
        \<lparr>Customer_name = ''Frank Green'', phone = ''5555556666'',
          address = ''888 Discount Lane''\<rparr>,
      o_items = Some
        [\<lparr>menu_item_id = 1, menu_item_name = ''Margherita Pizza'', quantity = 1,
            unit_price = (Decimal 1000 (- 2))\<rparr>]\<rparr>"

definition unavailable_item_payload :: order_dict where
  "unavailable_item_payload =
     \<lparr>o_id = None, o_status = None,
      o_customer = Some
        \<lparr>Customer_name = ''Grace Hopper'', phone = ''1234567890'',
          address = ''Code Alley''\<rparr>,
      o_items = Some
        [\<lparr>menu_item_id = 6, menu_item_name = ''Seasonal Soup'', quantity = 1,
            unit_price = (Decimal 600 (- 2))\<rparr>]\<rparr>"

definition andthen ::
  "('s \<Rightarrow> (py_exception + 'a) \<times> 's) \<Rightarrow> ('a \<Rightarrow> 's \<Rightarrow> (py_exception + 'b) \<times> 's) \<Rightarrow>
   's \<Rightarrow> (py_exception + 'b) \<times> 's" where
  \<comment> \<open>one statement after another; an exception nothing caught ends the handler\<close>
  "andthen f g s = (case f s of (Inl e, s') \<Rightarrow> (Inl e, s') | (Inr a, s') \<Rightarrow> g a s')"

definition computed_properties_hold :: "Order \<Rightarrow> bool" where
  \<comment> \<open>the four \<open>assert\<close>s of the first scenario; \<open>==\<close> on decimals compares the numbers\<close>
  "computed_properties_hold response =
     (dec_value (total_amount response) = dec_value (Decimal 4099 (- 2)) \<and>
      dec_value (total_amount_with_delivery response) = dec_value (Decimal 4398 (- 2)) \<and>
      total_items_count response = 2 \<and>
      total_quantity response = 3)"

definition valid_order_test ::
  "order_state \<Rightarrow> (py_exception + string \<times> int option \<times> string option) \<times> order_state" where
  \<comment> \<open>the status, the \<open>order_id\<close> and \<open>computed_properties_verified\<close> of the report\<close>
  "valid_order_test s =
     (case OrderCreate_init valid_order_payload of
        Inl e \<Rightarrow> if is_ValueError e then (Inr (''FAIL'', None, None), s) else (Inl e, s)
      | Inr m \<Rightarrow>
          (case create_order m s of
             (Inl (HTTPException _ _), s') \<Rightarrow> (Inr (''FAIL'', None, None), s')
           | (Inl (Uncaught e), s') \<Rightarrow>
               if is_ValueError e then (Inr (''FAIL'', None, None), s') else (Inl e, s')
           | (Inr response, s') \<Rightarrow>
               if Order_id response = 1
               then if computed_properties_hold response
                    then (Inr (''PASS'', Some (Order_id response), Some ''PASS''), s')
                    else (Inl AssertionError, s')
               else (Inr (''PASS'', Some (Order_id response),
                          Some ''SKIPPED (not first order)''), s')))"

definition expect_rejected :: "order_dict \<Rightarrow> order_state \<Rightarrow> (py_exception + string) \<times> order_state" where
  \<comment> \<open>\<open>try: await create_order(OrderCreate(**payload)); status "FAIL"\<close>, with
      \<open>except HTTPException\<close> and \<open>except ValueError\<close> giving status "PASS"\<close>
  "expect_rejected payload s =
     (case OrderCreate_init payload of
        Inl e \<Rightarrow> if is_ValueError e then (Inr ''PASS'', s) else (Inl e, s)
      | Inr m \<Rightarrow>
          (case create_order m s of
             (Inl (HTTPException _ _), s') \<Rightarrow> (Inr ''PASS'', s')
           | (Inl (Uncaught e), s') \<Rightarrow>
               if is_ValueError e then (Inr ''PASS'', s') else (Inl e, s')
           | (Inr _, s') \<Rightarrow> (Inr ''FAIL'', s')))"

definition status_update_test ::
  "string \<times> int option \<times> string option \<Rightarrow> order_state \<Rightarrow>
   (py_exception + string) \<times> order_state" where
  "status_update_test valid s =
     (case valid of
        (st, Some order_id_to_update, _) \<Rightarrow>
          if st = ''PASS''
          then (case update_order_status order_id_to_update CONFIRMED s of
                  (Inl (HTTPException _ _), s') \<Rightarrow> (Inr ''FAIL'', s')
                | (Inl (Uncaught e), s') \<Rightarrow> (Inl e, s')
                | (Inr updated_order, s') \<Rightarrow>
                    if status updated_order = CONFIRMED then (Inr ''PASS'', s')
                    else (Inr ''FAIL'', s'))
          else (Inr ''SKIPPED'', s)
      | (_, None, _) \<Rightarrow> (Inr ''SKIPPED'', s))"

definition run_order_test_cases ::
  "order_state \<Rightarrow> (py_exception + (string \<times> string) list) \<times> order_state" where
  \<comment> \<open>the status reported for each scenario, in the order of the report\<close>
  "run_order_test_cases =
     andthen valid_order_test (\<lambda>t1.
     andthen (expect_rejected empty_items_payload) (\<lambda>t2.
     andthen (expect_rejected invalid_phone_payload) (\<lambda>t3.
     andthen (expect_rejected large_quantity_payload) (\<lambda>t4.
     andthen (status_update_test t1) (\<lambda>t5.
     andthen (expect_rejected invalid_menu_item_id_payload) (\<lambda>t6.
     andthen (expect_rejected price_mismatch_payload) (\<lambda>t7.
     andthen (expect_rejected unavailable_item_payload) (\<lambda>t8 s.
       (Inr [(''valid_order_test'', fst t1),
             (''empty_items_test'', t2),
             (''invalid_phone_test'', t3),
             (''large_quantity_test'', t4),
             (''status_update_test'', t5),
             (''invalid_menu_item_id_test'', t6),
             (''price_mismatch_test'', t7),
             (''unavailable_item_test'', t8)], s)))))))))"

section \<open>Notions used in the statements\<close>

text \<open>
  A request body for the round trip of the first sample item: the fields the property
  names, with a description (the model requires one) and nothing else.
\<close>

definition margherita_request :: "string \<Rightarrow> item_dict" where
  "margherita_request de =
     \<lparr>d_id = None, d_name = Some ''Margherita Pizza'', d_description = Some de,
      d_category = Some MAIN_COURSE, d_price = Some (Decimal 1599 (- 2)),
      d_is_available = None, d_preparation_time = Some 20,
      d_ingredients = Some [''pizza dough'', ''tomato sauce'', ''mozzarella'', ''basil'', ''olive oil''],
      d_calories = Some (Some 650), d_is_vegetarian = Some True, d_is_spicy = None\<rparr>"

text \<open>
  The fields of a body other than the price pass their checks, the name twice: once in
  the model of the request and once more, trimmed, when the store builds the item.
\<close>

definition other_fields_valid :: "item_dict \<Rightarrow> bool" where
  "other_fields_valid kw =
     (Option.bind (Option.bind (d_name kw) name_field) name_field \<noteq> None \<and>
      Option.bind (d_description kw) description_field \<noteq> None \<and>
      d_category kw \<noteq> None \<and>
      Option.bind (d_preparation_time kw) preparation_time_field \<noteq> None \<and>
      Option.bind (d_ingredients kw) ingredients_field \<noteq> None \<and>
      calories_field (with_default None (d_calories kw)) \<noteq> None)"

text \<open>
  A request body that holds the price and no other field.
\<close>

definition price_only :: "decimal \<Rightarrow> item_dict" where
  "price_only p =
     \<lparr>d_id = None, d_name = None, d_description = None, d_category = None,
      d_price = Some p, d_is_available = None, d_preparation_time = None,
      d_ingredients = None, d_calories = None, d_is_vegetarian = None, d_is_spicy = None\<rparr>"

text \<open>
  The state of the menu service once the module is loaded.
\<close>

definition seeded :: menu_state where
  "seeded = (case startup of Inr s \<Rightarrow> s | Inl _ \<Rightarrow> empty_menu)"

text \<open>
  The first sample item under a name of five characters that trimming leaves with two.
\<close>

definition short_name_body :: item_dict where
  "short_name_body = margherita_pizza\<lparr>d_name := Some ''Pi   ''\<rparr>"

section \<open>Auxiliary facts\<close>

lemma map_of_dict_set: "map_of (dict_set k v d) = (map_of d)(k \<mapsto> v)"
  by (induction d) (auto simp: fun_eq_iff)

lemma list_all_dict_set: "P (k, v) \<Longrightarrow> list_all P d \<Longrightarrow> list_all P (dict_set k v d)"
  by (induction d) auto

lemma list_all_dict_del: "list_all P d \<Longrightarrow> list_all P (dict_del k d)"
  by (simp add: dict_del_def list_all_iff)

lemma dropWhile_rev_trimmed:
  assumes "u = dropWhile P (rev (dropWhile P v))"
  shows "dropWhile P (rev u) = rev u"
proof (cases "u = []")
  case True
  then show ?thesis by simp
next
  case False
  define w where "w = dropWhile P v"
  have "rev w = takeWhile P (rev w) @ u"
    using assms w_def by simp
  then have "w = rev u @ rev (takeWhile P (rev w))"
    by (metis rev_append rev_rev_ident)
  with False have "w \<noteq> []" and "hd w = hd (rev u)"
    by (auto, metis hd_append2 rev_is_Nil_conv)
  moreover have "\<not> P (hd w)"
    using \<open>w \<noteq> []\<close> hd_dropWhile [of P v] w_def by simp
  ultimately show ?thesis
    using False by (simp add: dropWhile_eq_self_iff)
qed

lemma strip_idem: "strip (strip v) = strip v"
  by (simp add: strip_def dropWhile_rev_trimmed)

lemma length_strip: "length (strip v) \<le> length v"
proof -
  have "length (strip v) \<le> length (dropWhile is_space v)"
    unfolding strip_def by (metis length_dropWhile_le length_rev)
  also have "\<dots> \<le> length v"
    by (rule length_dropWhile_le)
  finally show ?thesis .
qed

lemma set_strip: "set (strip v) \<subseteq> set v"
proof -
  have "set (strip v) \<subseteq> set (dropWhile is_space v)"
    unfolding strip_def using set_dropWhileD by fastforce
  then show ?thesis
    using set_dropWhileD by fastforce
qed

lemma list_all_strip: "list_all P v \<Longrightarrow> list_all P (strip v)"
  using set_strip [of v] by (auto simp: list_all_iff)

lemma update_dict_has_id:
  "d_id (dict_update (FoodItem_dict existing) (dict_exclude_unset m)) = Some (FoodItem_id existing)"
  by (simp add: dict_update_def FoodItem_dict_def dict_exclude_unset_def overwrite_def)

lemma update_raises_TypeError:
  "FoodItem_init i (dict_update (FoodItem_dict existing) (dict_exclude_unset m)) = Inl TypeError"
  by (simp add: FoodItem_init_def update_dict_has_id)

lemma update_menu_item_present:
  "map_of (menu_db s) i = Some existing \<Longrightarrow>
   update_menu_item i m s = (Inl (Uncaught TypeError), s)"
  by (simp add: update_menu_item_def update_raises_TypeError is_ValueError_def)

lemma update_menu_item_state: "snd (update_menu_item i m s) = s"
  by (cases "map_of (menu_db s) i") (simp_all add: update_menu_item_present, simp add: update_menu_item_def)

lemma price_field_Some: "price_field p = Some q \<Longrightarrow> q = p"
  by (auto simp: price_field_def decimal_field_def validate_price_range_def bind_eq_Some_conv split: if_splits)

lemma price_field_iff:
  "price_field p \<noteq> None \<longleftrightarrow>
     (dec_less (Decimal 0 0) p \<and> decimal_places_ok 2 p) \<and>
     (dec_le (Decimal 100 (- 2)) p \<and> dec_le p (Decimal 10000 (- 2)))"
  by (auto simp: price_field_def decimal_field_def validate_price_range_def)

lemma validate_fields_price:
  assumes "validate_fields kw = Some m"
  shows "\<exists>p. d_price kw = Some p \<and> price_field p = Some p \<and> price m = p"
proof -
  from assms obtain p q where "d_price kw = Some p" "price_field p = Some q" "price m = q"
    by (auto simp: validate_fields_def bind_eq_Some_conv)
  with price_field_Some [of p q] show ?thesis by simp
qed

lemma validate_fields_twice:
  assumes "other_fields_valid kw" and "d_price kw = Some p" and "price_field p \<noteq> None"
  shows "\<exists>m. validate_fields kw = Some m \<and> validate_fields (FoodItemCreate_dict m) \<noteq> None \<and>
             price m = p \<and> Some (name m) = Option.bind (d_name kw) name_field"
proof -
  from assms(1) obtain n0 n n2 where n: "d_name kw = Some n0" "name_field n0 = Some n" "name_field n = Some n2"
    by (auto simp: other_fields_valid_def bind_eq_None_conv)
  from assms(1) obtain de where de: "d_description kw = Some de" "description_field de = Some de"
    by (auto simp: other_fields_valid_def bind_eq_None_conv description_field_def str_field_def split: if_splits)
  from assms(1) obtain c where c: "d_category kw = Some c"
    by (auto simp: other_fields_valid_def)
  from assms(1) obtain t where t: "d_preparation_time kw = Some t" "preparation_time_field t = Some t"
    by (auto simp: other_fields_valid_def bind_eq_None_conv preparation_time_field_def split: if_splits)
  from assms(1) obtain ing where ing: "d_ingredients kw = Some ing" "ingredients_field ing = Some ing"
    by (auto simp: other_fields_valid_def bind_eq_None_conv ingredients_field_def split: if_splits)
  from assms(1) obtain cal where cal: "calories_field (with_default None (d_calories kw)) = Some cal"
      "calories_field cal = Some cal"
    by (auto simp: other_fields_valid_def calories_field_def split: option.splits if_splits)
  from assms(3) have p: "price_field p = Some p"
    using price_field_Some by fastforce
  show ?thesis
    using n de c t ing cal p assms(2)
    by (simp add: validate_fields_def FoodItemCreate_dict_def with_default_def)
qed

lemma margherita_name: "name_field ''Margherita Pizza'' = Some ''Margherita Pizza''"
  by (simp add: name_field_def str_field_def validate_name_characters_def name_pattern_def
      is_letter_def is_space_def strip_def)

lemma price_1599: "price_field (Decimal 1599 (- 2)) = Some (Decimal 1599 (- 2))"
  by (simp add: price_field_def decimal_field_def validate_price_range_def dec_less_def dec_le_def
      dec_value_def Decimal_def decimal_places_ok_def)

lemma margherita_model:
  assumes "10 \<le> length de" and "length de \<le> 500"
  shows "validate_fields (margherita_request de) =
     Some \<lparr>name = ''Margherita Pizza'', description = de, category = MAIN_COURSE,
           price = Decimal 1599 (- 2), is_available = True, preparation_time = 20,
           ingredients = [''pizza dough'', ''tomato sauce'', ''mozzarella'', ''basil'', ''olive oil''],
           calories = Some 650, is_vegetarian = True, is_spicy = False,
           fields_set = {F_name, F_description, F_category, F_price, F_preparation_time,
                         F_ingredients, F_calories, F_is_vegetarian}\<rparr>"
  using assms
  by (simp add: validate_fields_def margherita_request_def margherita_name price_1599
      description_field_def str_field_def preparation_time_field_def ingredients_field_def
      calories_field_def with_default_def model_keys_def has_key_def)

section \<open>Round trip of a created item\<close>

text \<open>
  C8. Creating the item named Margherita Pizza with price 15.99, category main course,
  preparation time 20, the five ingredients, 650 calories and the vegetarian flag (and any
  description of 10 to 500 characters) succeeds in every state of the menu service.
  Getting the item by the id returned yields the record that creation returned, with the
  field values of the request, price category Mid-range and dietary information
  Vegetarian alone.
\<close>

theorem create_then_get_margherita:
  assumes "10 \<le> length de" and "length de \<le> 500"
  shows "\<exists>it s'. serve (POST_menu (margherita_request de)) s = (OK (Item it), s') \<and>
           serve (GET_menu_item (FoodItem_id it)) s' = (OK (Item it), s') \<and>
           FoodItem_id it = last_item_id s + 1 \<and>
           name it = ''Margherita Pizza'' \<and> description it = de \<and>
           category it = MAIN_COURSE \<and> price it = Decimal 1599 (- 2) \<and>
           preparation_time it = 20 \<and>
           ingredients it = [''pizza dough'', ''tomato sauce'', ''mozzarella'', ''basil'', ''olive oil''] \<and>
           calories it = Some 650 \<and> is_vegetarian it \<and>
           price_category it = ''Mid-range'' \<and> dietary_info it = [''Vegetarian'']"
proof -
  let ?m = "\<lparr>name = ''Margherita Pizza'', description = de, category = MAIN_COURSE,
           price = Decimal 1599 (- 2), is_available = True, preparation_time = 20,
           ingredients = [''pizza dough'', ''tomato sauce'', ''mozzarella'', ''basil'', ''olive oil''],
           calories = Some 650, is_vegetarian = True, is_spicy = False,
           fields_set = {F_name, F_description, F_category, F_price, F_preparation_time,
                         F_ingredients, F_calories, F_is_vegetarian}\<rparr>"
  have m: "FoodItemCreate_init (margherita_request de) = Inr ?m"
    using assms by (simp add: FoodItemCreate_init_def margherita_model)
  have again: "validate_fields (FoodItemCreate_dict ?m) = Some (?m\<lparr>fields_set := set (model_keys (FoodItemCreate_dict ?m))\<rparr>)"
    using assms
    by (simp add: validate_fields_def FoodItemCreate_dict_def margherita_name price_1599
      description_field_def str_field_def preparation_time_field_def ingredients_field_def
      calories_field_def with_default_def)
  define it where "it = add_id (?m\<lparr>fields_set := set (model_keys (FoodItemCreate_dict ?m))\<rparr>) (last_item_id s + 1)"
  define s' where "s' = s\<lparr>last_item_id := last_item_id s + 1,
                          menu_db := dict_set (last_item_id s + 1) it (menu_db s)\<rparr>"
  have init: "FoodItem_init (last_item_id s + 1) (FoodItemCreate_dict ?m) = Inr it"
    unfolding FoodItem_init_def again it_def by (simp add: FoodItemCreate_dict_def)
  have post: "serve (POST_menu (margherita_request de)) s = (OK (Item it), s')"
    by (simp add: with_body_def m add_menu_item_def add_item_to_db_def Let_def init reply_def s'_def)
  have id: "FoodItem_id it = last_item_id s + 1"
    by (simp add: it_def add_id_def)
  have get: "serve (GET_menu_item (FoodItem_id it)) s' = (OK (Item it), s')"
    by (simp add: id get_menu_item_def s'_def map_of_dict_set reply_def)
  have cat: "price_category it = ''Mid-range''"
    by (simp add: it_def add_id_def price_category_def dec_less_def dec_le_def dec_value_def Decimal_def)
  have diet: "dietary_info it = [''Vegetarian'']"
    by (simp add: it_def add_id_def dietary_info_def)
  have fields: "name it = ''Margherita Pizza'' \<and> description it = de \<and>
           category it = MAIN_COURSE \<and> price it = Decimal 1599 (- 2) \<and>
           preparation_time it = 20 \<and>
           ingredients it = [''pizza dough'', ''tomato sauce'', ''mozzarella'', ''basil'', ''olive oil''] \<and>
           calories it = Some 650 \<and> is_vegetarian it"
    by (simp add: it_def add_id_def)
  from post get id cat diet fields show ?thesis by blast
qed

theorem create_then_get_margherita_witness:
  "10 \<le> length ''Classic Pizza with tomato sauce, mozzarella cheese, and fresh basil'' \<and>
   length ''Classic Pizza with tomato sauce, mozzarella cheese, and fresh basil'' \<le> 500 \<and>
   (\<exists>it s'. serve (POST_menu (margherita_request
          ''Classic Pizza with tomato sauce, mozzarella cheese, and fresh basil'')) empty_menu =
          (OK (Item it), s') \<and>
        serve (GET_menu_item (FoodItem_id it)) s' = (OK (Item it), s') \<and>
        FoodItem_id it = 1 \<and>
        price_category it = ''Mid-range'' \<and> dietary_info it = [''Vegetarian''])"
proof -
  have l: "10 \<le> length ''Classic Pizza with tomato sauce, mozzarella cheese, and fresh basil''"
    and u: "length ''Classic Pizza with tomato sauce, mozzarella cheese, and fresh basil'' \<le> 500"
    by simp_all
  from create_then_get_margherita [OF l u, of empty_menu] l u show ?thesis
    by (simp add: empty_menu_def) blast
qed

lemmas eval_defs = sample_menu_items_raw_def margherita_pizza_def spicy_chicken_wings_def caesar_salad_def
   chocolate_lava_cake_def orange_juice_def empty_menu_def add_item_to_db_def FoodItem_init_def FoodItemCreate_dict_def add_id_def
   FoodItemCreate_init_def validate_fields_def name_field_def str_field_def
   validate_name_characters_def name_pattern_def is_letter_def is_space_def strip_def description_field_def
   price_field_def decimal_field_def validate_price_range_def dec_less_def dec_le_def dec_value_def Decimal_def
   decimal_places_ok_def preparation_time_field_def ingredients_field_def calories_field_def with_default_def
   model_keys_def has_key_def Let_def

lemma startup_seeded: "startup = Inr seeded \<and> map fst (menu_db seeded) = [1, 2, 3, 4, 5] \<and> last_item_id seeded = 5"
proof -
  have e: "\<not> isl startup \<and> map fst (menu_db (projr startup)) = [1, 2, 3, 4, 5] \<and>
      last_item_id (projr startup) = 5"
    by (simp add: startup_def eval_defs)
  then obtain s where s: "startup = Inr s"
    by (metis sum.collapse(2))
  have 1: "seeded = s"
    unfolding seeded_def s by simp
  show ?thesis
    using e unfolding s 1 by simp
qed

lemma FoodItemCreate_dict_no_id: "d_id (FoodItemCreate_dict m) = None"
  by (simp add: FoodItemCreate_dict_def)

lemma validate_fields_name:
  assumes "validate_fields kw = Some m"
  shows "\<exists>n. d_name kw = Some n \<and> name_field n = Some (name m) \<and> F_name \<in> fields_set m"
  using assms
  by (auto simp: validate_fields_def bind_eq_Some_conv model_keys_def has_key_def)

section \<open>The price rules at creation\<close>

text \<open>
  C4. In every state of the menu service, creating an item from a body whose price lies
  outside the band from 1.00 to 100.00 is answered with the validation error of the
  request (422) and changes nothing; so is a body whose price is not greater than 0 or has
  more than two digits after the point. A body whose other fields are valid and whose
  price passes both rules is created and stored with that price. The witness runs the
  prices 0.50, 100.01, 15.999 and 100.00.
\<close>

theorem post_menu_price_rules:
  "(d_price kw = Some p \<and> \<not> (dec_le (Decimal 100 (- 2)) p \<and> dec_le p (Decimal 10000 (- 2)))
      \<longrightarrow> serve (POST_menu kw) s = (RequestValidationError, s)) \<and>
   (d_price kw = Some p \<and> \<not> (dec_less (Decimal 0 0) p \<and> decimal_places_ok 2 p)
      \<longrightarrow> serve (POST_menu kw) s = (RequestValidationError, s)) \<and>
   (other_fields_valid kw \<and> d_price kw = Some p \<and>
    dec_less (Decimal 0 0) p \<and> decimal_places_ok 2 p \<and>
    dec_le (Decimal 100 (- 2)) p \<and> dec_le p (Decimal 10000 (- 2))
      \<longrightarrow> (\<exists>it s'. serve (POST_menu kw) s = (OK (Item it), s') \<and> price it = p \<and>
                    map_of (menu_db s') (FoodItem_id it) = Some it))"
proof (intro conjI impI)
  assume "d_price kw = Some p \<and> \<not> (dec_le (Decimal 100 (- 2)) p \<and> dec_le p (Decimal 10000 (- 2)))"
  then have "d_price kw = Some p" "price_field p = None"
    using price_field_iff [of p] by auto
  then have "validate_fields kw = None"
    by (simp add: validate_fields_def)
  then show "serve (POST_menu kw) s = (RequestValidationError, s)"
    by (simp add: with_body_def FoodItemCreate_init_def)
next
  assume "d_price kw = Some p \<and> \<not> (dec_less (Decimal 0 0) p \<and> decimal_places_ok 2 p)"
  then have "d_price kw = Some p" "price_field p = None"
    using price_field_iff [of p] by auto
  then have "validate_fields kw = None"
    by (simp add: validate_fields_def)
  then show "serve (POST_menu kw) s = (RequestValidationError, s)"
    by (simp add: with_body_def FoodItemCreate_init_def)
next
  assume a: "other_fields_valid kw \<and> d_price kw = Some p \<and>
    dec_less (Decimal 0 0) p \<and> decimal_places_ok 2 p \<and>
    dec_le (Decimal 100 (- 2)) p \<and> dec_le p (Decimal 10000 (- 2))"
  then have "price_field p \<noteq> None"
    using price_field_iff [of p] by simp
  with a obtain m m' where m: "validate_fields kw = Some m" "price m = p"
      and m': "validate_fields (FoodItemCreate_dict m) = Some m'"
    using validate_fields_twice [of kw p] by auto
  have p': "price m' = p"
    using validate_fields_price [OF m'] m(2) by (simp add: FoodItemCreate_dict_def)
  define i where "i = last_item_id s + 1"
  define s' where "s' = s\<lparr>last_item_id := i, menu_db := dict_set i (add_id m' i) (menu_db s)\<rparr>"
  have "serve (POST_menu kw) s = (OK (Item (add_id m' i)), s')"
    by (simp add: with_body_def FoodItemCreate_init_def m add_menu_item_def add_item_to_db_def
        FoodItem_init_def FoodItemCreate_dict_no_id m' reply_def s'_def i_def Let_def)
  moreover have "price (add_id m' i) = p" "FoodItem_id (add_id m' i) = i"
    using p' by (simp_all add: add_id_def)
  moreover have "map_of (menu_db s') i = Some (add_id m' i)"
    by (simp add: s'_def map_of_dict_set)
  ultimately show "\<exists>it s'. serve (POST_menu kw) s = (OK (Item it), s') \<and> price it = p \<and>
                    map_of (menu_db s') (FoodItem_id it) = Some it"
    by auto
qed

theorem post_menu_price_rules_witness:
  "serve (POST_menu invalid_price_item) empty_menu = (RequestValidationError, empty_menu) \<and>
   serve (POST_menu (margherita_pizza\<lparr>d_price := Some (Decimal 10001 (- 2))\<rparr>)) empty_menu =
     (RequestValidationError, empty_menu) \<and>
   serve (POST_menu (margherita_pizza\<lparr>d_price := Some (Decimal 15999 (- 3))\<rparr>)) empty_menu =
     (RequestValidationError, empty_menu) \<and>
   (\<exists>it s'. serve (POST_menu (margherita_pizza\<lparr>d_price := Some (Decimal 10000 (- 2))\<rparr>)) empty_menu =
              (OK (Item it), s') \<and>
            price it = Decimal 10000 (- 2) \<and> map_of (menu_db s') (FoodItem_id it) = Some it)"
proof -
  have 1: "d_price invalid_price_item = Some (Decimal 50 (- 2)) \<and>
      \<not> (dec_le (Decimal 100 (- 2)) (Decimal 50 (- 2)) \<and> dec_le (Decimal 50 (- 2)) (Decimal 10000 (- 2)))"
    by (simp add: invalid_price_item_def dec_le_def dec_value_def Decimal_def)
  have 2: "d_price (margherita_pizza\<lparr>d_price := Some (Decimal 10001 (- 2))\<rparr>) = Some (Decimal 10001 (- 2)) \<and>
      \<not> (dec_le (Decimal 100 (- 2)) (Decimal 10001 (- 2)) \<and> dec_le (Decimal 10001 (- 2)) (Decimal 10000 (- 2)))"
    by (simp add: dec_le_def dec_value_def Decimal_def)
  have 3: "d_price (margherita_pizza\<lparr>d_price := Some (Decimal 15999 (- 3))\<rparr>) = Some (Decimal 15999 (- 3)) \<and>
      \<not> (dec_less (Decimal 0 0) (Decimal 15999 (- 3)) \<and> decimal_places_ok 2 (Decimal 15999 (- 3)))"
    by (simp add: decimal_places_ok_def Decimal_def)
  have 4: "other_fields_valid (margherita_pizza\<lparr>d_price := Some (Decimal 10000 (- 2))\<rparr>) \<and>
      d_price (margherita_pizza\<lparr>d_price := Some (Decimal 10000 (- 2))\<rparr>) = Some (Decimal 10000 (- 2)) \<and>
      dec_less (Decimal 0 0) (Decimal 10000 (- 2)) \<and> decimal_places_ok 2 (Decimal 10000 (- 2)) \<and>
      dec_le (Decimal 100 (- 2)) (Decimal 10000 (- 2)) \<and> dec_le (Decimal 10000 (- 2)) (Decimal 10000 (- 2))"
    by (simp add: other_fields_valid_def margherita_pizza_def margherita_name
        description_field_def str_field_def preparation_time_field_def ingredients_field_def
        calories_field_def with_default_def dec_less_def dec_le_def dec_value_def Decimal_def
        decimal_places_ok_def)
  note r1 = post_menu_price_rules [THEN conjunct1, THEN mp, OF 1]
  note r2 = post_menu_price_rules [THEN conjunct1, THEN mp, OF 2]
  note r3 = post_menu_price_rules [THEN conjunct2, THEN conjunct1, THEN mp, OF 3]
  note r4 = post_menu_price_rules [THEN conjunct2, THEN conjunct2, THEN mp, OF 4]
  show ?thesis
    by (intro conjI) (rule r1, rule r2, rule r3, rule r4)
qed

section \<open>An update that submits the price alone\<close>

text \<open>
  C1, as amended. An update request whose body holds only the price is answered with the
  validation error of the request (422) for every id, price and state: the model of the
  body requires name, description, category, preparation time and ingredients. The state
  returned is the state given, so the stored item keeps its id and every field.
\<close>

theorem price_only_update_rejected:
  "serve (PUT_menu_item i (price_only p)) s = (RequestValidationError, s)"
  by (simp add: with_body_def FoodItemCreate_init_def validate_fields_def price_only_def)

text \<open>
  C1 as stated fails: item 1 of the seeded menu is stored, 20.00 is a price the rules
  accept, and the update of item 1 with the price alone does not succeed.
\<close>

theorem price_only_update_counterexample:
  "map_of (menu_db seeded) 1 \<noteq> None \<and>
   price_field (Decimal 2000 (- 2)) = Some (Decimal 2000 (- 2)) \<and>
   serve (PUT_menu_item 1 (price_only (Decimal 2000 (- 2)))) seeded =
     (RequestValidationError, seeded)"
proof -
  have "(1::int) \<in> set (map fst (menu_db seeded))"
    using startup_seeded by simp
  then have "map_of (menu_db seeded) 1 \<noteq> None"
    by (simp add: map_of_eq_None_iff)
  moreover have "price_field (Decimal 2000 (- 2)) = Some (Decimal 2000 (- 2))"
    by (simp add: price_field_def decimal_field_def validate_price_range_def dec_less_def
        dec_le_def dec_value_def Decimal_def decimal_places_ok_def)
  moreover have "serve (PUT_menu_item 1 (price_only (Decimal 2000 (- 2)))) seeded =
     (RequestValidationError, seeded)"
    by (simp add: with_body_def FoodItemCreate_init_def validate_fields_def price_only_def)
  ultimately show ?thesis by simp
qed

section \<open>An update whose merged record is invalid\<close>

text \<open>
  C7, at a failing input. The body is accepted as a model (its name has five characters,
  all letters or spaces) and item 1 of the seeded menu is stored. The merged dictionary
  fails validation, its name being the two characters left by trimming. The handler
  answers with the uncaught \<open>TypeError\<close> (status 500), not with status 422, because the
  merged dictionary still holds the key \<open>id\<close> of the stored item and \<open>id\<close> is passed as
  a keyword as well. The stored state is unchanged.
\<close>

theorem update_of_invalid_merge_is_uncaught:
  "(case FoodItemCreate_init short_name_body of
      Inl _ \<Rightarrow> False
    | Inr m \<Rightarrow>
        (case map_of (menu_db seeded) 1 of
           None \<Rightarrow> False
         | Some existing \<Rightarrow>
             validate_fields (dict_update (FoodItem_dict existing) (dict_exclude_unset m)) = None \<and>
             update_menu_item 1 m seeded = (Inl (Uncaught TypeError), seeded) \<and>
             serve (PUT_menu_item 1 short_name_body) seeded =
               (Failed (Uncaught TypeError), seeded)))"
proof -
  have "validate_fields short_name_body \<noteq> None"
    by (simp add: short_name_body_def margherita_pizza_def validate_fields_def name_field_def
        str_field_def validate_name_characters_def name_pattern_def is_letter_def is_space_def
        price_1599 description_field_def preparation_time_field_def ingredients_field_def
        calories_field_def with_default_def)
  then obtain m where m: "validate_fields short_name_body = Some m"
    by auto
  have "name_field ''Pi   '' = Some ''Pi''"
    by (simp add: name_field_def str_field_def validate_name_characters_def name_pattern_def
        is_letter_def is_space_def strip_def)
  with validate_fields_name [OF m] have n: "name m = ''Pi''" "F_name \<in> fields_set m"
    by (simp_all add: short_name_body_def)
  have "(1::int) \<in> set (map fst (menu_db seeded))"
    using startup_seeded by simp
  then obtain existing where e: "map_of (menu_db seeded) 1 = Some existing"
    using map_of_eq_None_iff [of "menu_db seeded" 1] by auto
  have "d_name (dict_update (FoodItem_dict existing) (dict_exclude_unset m)) = Some ''Pi''"
    using n by (simp add: dict_update_def dict_exclude_unset_def if_set_def overwrite_def)
  then have v: "validate_fields (dict_update (FoodItem_dict existing) (dict_exclude_unset m)) = None"
    by (simp add: validate_fields_def name_field_def str_field_def)
  have u: "update_menu_item 1 m seeded = (Inl (Uncaught TypeError), seeded)"
    using e by (rule update_menu_item_present)
  have "serve (PUT_menu_item 1 short_name_body) seeded = (Failed (Uncaught TypeError), seeded)"
    by (simp add: with_body_def FoodItemCreate_init_def m u reply_def)
  with v u show ?thesis
    by (simp add: FoodItemCreate_init_def m e)
qed

end
